theory Spec2Isabelle
  imports Main "HOL-Library.Word" "HOL-Library.Signed_Division"
begin

section \<open>The locking facade of mutex.h\<close>

text \<open>
  mutex.h is a header of function-like macros. Each facade macro expands, at its call site,
  to at most one \<^verbatim>\<open>JANUS_PRINT\<close> and one call of a primitive of the selected
  threading library. The model gives every macro a function of the same name on an explicit
  world: the flag \<^verbatim>\<open>lock_debug\<close>, what has been printed, the calls issued, and the
  state of the threading library, which is a parameter.
\<close>

subsection \<open>Build-time selection, callees, arguments\<close>

text \<open>\<^verbatim>\<open>#ifdef USE_PTHREAD_MUTEX ... #else ... #endif\<close> (lines 20, 70, 169).\<close>

datatype backend_sel = USE_PTHREAD_MUTEX | GLIB_DEFAULT

text \<open>
  Every identifier that is called in some expansion. The last two are not primitives of a
  threading library: \<^verbatim>\<open>janus_rwlock_reader_trylock_debug\<close> (line 141) and
  \<^verbatim>\<open>janus_rwlock_writer_trylock_debug\<close> (line 159) name the wrapper macro that is
  being expanded, and the preprocessor never replaces a macro's name inside its own
  expansion (C11 6.10.3.4p2). What is left is a call of an ordinary function of that
  name, which the header does not declare.
\<close>

datatype callee =
    pthread_mutex_init | pthread_mutex_destroy | pthread_mutex_lock
  | pthread_mutex_trylock | pthread_mutex_unlock
  | pthread_cond_init | pthread_cond_destroy | pthread_cond_wait
  | pthread_cond_timedwait | pthread_cond_signal | pthread_cond_broadcast
  | g_mutex_init | g_mutex_clear | g_mutex_lock | g_mutex_trylock | g_mutex_unlock
  | g_cond_init | g_cond_clear | g_cond_wait | g_cond_wait_until
  | g_cond_signal | g_cond_broadcast
  | g_rw_lock_init | g_rw_lock_clear
  | g_rw_lock_reader_lock | g_rw_lock_reader_trylock | g_rw_lock_reader_unlock
  | g_rw_lock_writer_lock | g_rw_lock_writer_trylock | g_rw_lock_writer_unlock
  | fn_janus_rwlock_reader_trylock | fn_janus_rwlock_writer_trylock

text \<open>\<^verbatim>\<open>struct timespec\<close>, both fields 64 bits wide (LP64).\<close>

record timespec =
  tv_sec :: "64 word"
  tv_nsec :: "64 word"

text \<open>
  Actual arguments: a lock handle is a pointer (its address), \<^verbatim>\<open>NULL\<close> is the
  attribute argument of the pthread initialisers, a deadline is a \<^verbatim>\<open>gint64\<close>, and
  \<^verbatim>\<open>&jct\<close> refers to a \<^verbatim>\<open>struct timespec\<close> that the callee reads.
\<close>

datatype carg = Ptr nat | Null | I64 "64 word" | Ref timespec

text \<open>
  The threading library: a primitive called with arguments in a library state returns a
  value and a new state, or never returns (\<open>None\<close>), as a lock that is never released
  makes \<^verbatim>\<open>pthread_mutex_lock\<close> do. The value of a \<^verbatim>\<open>void\<close> primitive is
  not meaningful.
\<close>

type_synonym 'b backend = "callee \<Rightarrow> carg list \<Rightarrow> 'b \<Rightarrow> (int \<times> 'b) option"

text \<open>\<^verbatim>\<open>__FILE__\<close>, \<^verbatim>\<open>__FUNCTION__\<close> and \<^verbatim>\<open>__LINE__\<close> at the place of use.\<close>

record callsite =
  cs_file :: string
  cs_function :: string
  cs_line :: nat

text \<open>
  \<^item> \<open>lock_debug\<close>: \<^verbatim>\<open>extern int lock_debug\<close> (line 18);
  \<^item> \<open>flag_reads\<close>: how often \<open>lock_debug\<close> has been read (bookkeeping of the model);
  \<^item> \<open>sink\<close>: the strings handed to \<^verbatim>\<open>JANUS_PRINT\<close>, oldest first;
  \<^item> \<open>calls\<close>: the calls issued, oldest first (bookkeeping of the model);
  \<^item> \<open>ret_var\<close>: the variable \<^verbatim>\<open>ret\<close> of the enclosing scope.
    \<^verbatim>\<open>janus_rwlock_reader_trylock\<close> (line 143) declares no \<^verbatim>\<open>ret\<close> of its own,
    unlike the two other trylock wrappers, so it assigns the one in scope at its use;
  \<^item> \<open>bstate\<close>: the state of the threading library.
\<close>

record 'b world =
  lock_debug :: int
  flag_reads :: nat
  sink :: "string list"
  calls :: "(callee \<times> carg list) list"
  ret_var :: int
  bstate :: 'b

text \<open>
  What a use of a macro yields: the value of an expression, nothing (a statement that
  has completed), or no return at all.
\<close>

datatype outcome = Value int | No_value | Blocks

subsection \<open>Calls, statements, the flag\<close>

definition call :: "'b backend \<Rightarrow> callee \<Rightarrow> carg list \<Rightarrow> 'b world \<Rightarrow> outcome \<times> 'b world" where
  "call bk f args w =
     (case bk f args (bstate w) of
        None \<Rightarrow> (Blocks, w\<lparr>calls := calls w @ [(f, args)]\<rparr>)
      | Some (r, s') \<Rightarrow> (Value r, w\<lparr>calls := calls w @ [(f, args)], bstate := s'\<rparr>))"

text \<open>An expression used as a statement: \<^verbatim>\<open>f(a);\<close> drops the value.\<close>

fun stmt :: "outcome \<times> 'w \<Rightarrow> outcome \<times> 'w" where
  "stmt (Value r, w) = (No_value, w)"
| "stmt (No_value, w) = (No_value, w)"
| "stmt (Blocks, w) = (Blocks, w)"

text \<open>C's \<^verbatim>\<open>!e\<close>: 1 when \<open>e\<close> is 0, else 0.\<close>

definition lnot :: "int \<Rightarrow> int" where
  "lnot r = (if r = 0 then 1 else 0)"

fun not_of :: "outcome \<times> 'w \<Rightarrow> outcome \<times> 'w" where
  "not_of (Value r, w) = (Value (lnot r), w)"
| "not_of (No_value, w) = (No_value, w)"
| "not_of (Blocks, w) = (Blocks, w)"

text \<open>
  \<^verbatim>\<open>ret = e;\<close> where \<^verbatim>\<open>ret\<close> is the variable of the enclosing scope. The
  value kept in the outcome is the one \<^verbatim>\<open>ret;\<close> yields at the end of the statement
  expression.
\<close>

fun assign_ret_var :: "outcome \<times> 'b world \<Rightarrow> outcome \<times> 'b world" where
  "assign_ret_var (Value r, w) = (Value r, w\<lparr>ret_var := r\<rparr>)"
| "assign_ret_var (No_value, w) = (No_value, w)"
| "assign_ret_var (Blocks, w) = (Blocks, w)"

text \<open>One evaluation of \<^verbatim>\<open>lock_debug\<close>, in \<^verbatim>\<open>if(!lock_debug)\<close>.\<close>

definition read_lock_debug :: "'b world \<Rightarrow> int \<times> 'b world" where
  "read_lock_debug w = (lock_debug w, w\<lparr>flag_reads := flag_reads w + 1\<rparr>)"

subsection \<open>The trace sink\<close>

text \<open>
  The arguments of the directives \<^verbatim>\<open>%s\<close>, \<^verbatim>\<open>%d\<close> and \<^verbatim>\<open>%p\<close>, the only
  ones in the header's format strings.
\<close>

datatype parg = Str string | Dec nat | Pointer nat

fun dec_digits :: "nat \<Rightarrow> string" where
  "dec_digits n =
     (if n < 10 then [''0123456789'' ! n]
      else dec_digits (n div 10) @ [''0123456789'' ! (n mod 10)])"

fun hex_digits :: "nat \<Rightarrow> string" where
  "hex_digits n =
     (if n < 16 then [''0123456789abcdef'' ! n]
      else hex_digits (n div 16) @ [''0123456789abcdef'' ! (n mod 16)])"

declare dec_digits.simps [simp del] hex_digits.simps [simp del]

text \<open>
  Modelled from the spec: how \<^verbatim>\<open>%p\<close> renders a pointer is left to the C library,
  which is not in src/. The spec asks for a stable token that identifies the lock instance,
  for example its address; the rendering of glibc is taken.
\<close>

definition show_ptr :: "nat \<Rightarrow> string" where
  "show_ptr p = (if p = 0 then ''(nil)'' else ''0x'' @ hex_digits p)"

text \<open>
  The formatting of \<^verbatim>\<open>printf\<close> for these directives. A directive with no argument
  or one of the wrong kind is undefined in C: \<open>None\<close>.
\<close>

fun format :: "string \<Rightarrow> parg list \<Rightarrow> string option" where
  "format [] as = Some []"
| "format [ch] as = Some [ch]"
| "format (ch # d # fs) as =
     (if ch = CHR ''%'' \<and> d = CHR ''s'' then
        (case as of Str s # as' \<Rightarrow> map_option ((@) s) (format fs as') | _ \<Rightarrow> None)
      else if ch = CHR ''%'' \<and> d = CHR ''d'' then
        (case as of Dec n # as' \<Rightarrow> map_option ((@) (dec_digits n)) (format fs as') | _ \<Rightarrow> None)
      else if ch = CHR ''%'' \<and> d = CHR ''p'' then
        (case as of Pointer p # as' \<Rightarrow> map_option ((@) (show_ptr p)) (format fs as') | _ \<Rightarrow> None)
      else map_option ((#) ch) (format (d # fs) as))"

text \<open>
  Modelled from the spec: \<^verbatim>\<open>JANUS_PRINT\<close> is defined in debug.h, which is not in
  src/. The spec has the facade hand one formatted line to the trace sink, whose
  destination is out of scope: the formatted string is appended to \<open>sink\<close>.
\<close>

definition JANUS_PRINT :: "string \<Rightarrow> parg list \<Rightarrow> 'b world \<Rightarrow> 'b world" where
  "JANUS_PRINT fmt as w =
     (case format fmt as of None \<Rightarrow> w | Some s \<Rightarrow> w\<lparr>sink := sink w @ [s]\<rparr>)"

text \<open>The four arguments every trace point passes: the call site and the handle.\<close>

definition here :: "callsite \<Rightarrow> nat \<Rightarrow> parg list" where
  "here cs a = [Str (cs_file cs), Str (cs_function cs), Dec (cs_line cs), Pointer a]"

subsection \<open>Mutex (lines 22-47 and 72-97)\<close>

text \<open>
  \<^verbatim>\<open>#define janus_mutex_init(a) pthread_mutex_init(a,NULL)\<close> and
  \<^verbatim>\<open>#define janus_mutex_init(a) g_mutex_init(a)\<close>.
\<close>

definition janus_mutex_init :: "backend_sel \<Rightarrow> 'b backend \<Rightarrow> nat \<Rightarrow> 'b world \<Rightarrow> outcome \<times> 'b world" where
  "janus_mutex_init sel bk a w =
     (case sel of
        USE_PTHREAD_MUTEX \<Rightarrow> call bk pthread_mutex_init [Ptr a, Null] w
      | GLIB_DEFAULT \<Rightarrow> call bk g_mutex_init [Ptr a] w)"

definition janus_mutex_destroy :: "backend_sel \<Rightarrow> 'b backend \<Rightarrow> nat \<Rightarrow> 'b world \<Rightarrow> outcome \<times> 'b world" where
  "janus_mutex_destroy sel bk a w =
     (case sel of
        USE_PTHREAD_MUTEX \<Rightarrow> call bk pthread_mutex_destroy [Ptr a] w
      | GLIB_DEFAULT \<Rightarrow> call bk g_mutex_clear [Ptr a] w)"

text \<open>
  \<^verbatim>\<open>#define janus_mutex_lock_nodebug(a) pthread_mutex_lock(a)\<close>
  \<^verbatim>\<open>#define janus_mutex_lock_debug(a) { JANUS_PRINT("[%s:%s:%d:lock] %p\n", __FILE__, __FUNCTION__, __LINE__, a); pthread_mutex_lock(a); }\<close>
  \<^verbatim>\<open>#define janus_mutex_lock(a) { if(!lock_debug) { janus_mutex_lock_nodebug(a); } else { janus_mutex_lock_debug(a); } }\<close>
  and the same with \<^verbatim>\<open>g_mutex_lock\<close>.
\<close>

definition janus_mutex_lock_nodebug :: "backend_sel \<Rightarrow> 'b backend \<Rightarrow> nat \<Rightarrow> 'b world \<Rightarrow> outcome \<times> 'b world" where
  "janus_mutex_lock_nodebug sel bk a w =
     (case sel of
        USE_PTHREAD_MUTEX \<Rightarrow> call bk pthread_mutex_lock [Ptr a] w
      | GLIB_DEFAULT \<Rightarrow> call bk g_mutex_lock [Ptr a] w)"

definition janus_mutex_lock_debug :: "backend_sel \<Rightarrow> 'b backend \<Rightarrow> callsite \<Rightarrow> nat \<Rightarrow> 'b world \<Rightarrow> outcome \<times> 'b world" where
  "janus_mutex_lock_debug sel bk cs a w =
     (let w1 = JANUS_PRINT ''[%s:%s:%d:lock] %p\<newline>'' (here cs a) w in
      case sel of
        USE_PTHREAD_MUTEX \<Rightarrow> stmt (call bk pthread_mutex_lock [Ptr a] w1)
      | GLIB_DEFAULT \<Rightarrow> stmt (call bk g_mutex_lock [Ptr a] w1))"

definition janus_mutex_lock :: "backend_sel \<Rightarrow> 'b backend \<Rightarrow> callsite \<Rightarrow> nat \<Rightarrow> 'b world \<Rightarrow> outcome \<times> 'b world" where
  "janus_mutex_lock sel bk cs a w =
     (let (d, w0) = read_lock_debug w in
      if lnot d \<noteq> 0 then stmt (janus_mutex_lock_nodebug sel bk a w0)
      else janus_mutex_lock_debug sel bk cs a w0)"

text \<open>
  \<^verbatim>\<open>#define janus_mutex_trylock_nodebug(a) { ret = !pthread_mutex_trylock(a); }\<close>
  \<^verbatim>\<open>#define janus_mutex_trylock_debug(a) { JANUS_PRINT("[%s:%s:%d:trylock] %p\n", __FILE__, __FUNCTION__, __LINE__, a); ret = !pthread_mutex_trylock(a); }\<close>
  \<^verbatim>\<open>#define janus_mutex_trylock(a) ({ int ret; if(!lock_debug) { janus_mutex_trylock_nodebug(a); } else { janus_mutex_trylock_debug(a); } ret; })\<close>
  and, for GLib, \<^verbatim>\<open>ret = g_mutex_trylock(a)\<close> with \<^verbatim>\<open>gboolean ret\<close>.
  The two helper macros are statements that assign the wrapper's own \<^verbatim>\<open>ret\<close>; their
  outcome in the model is the value assigned, which the wrapper yields.
\<close>

definition janus_mutex_trylock_nodebug :: "backend_sel \<Rightarrow> 'b backend \<Rightarrow> nat \<Rightarrow> 'b world \<Rightarrow> outcome \<times> 'b world" where
  "janus_mutex_trylock_nodebug sel bk a w =
     (case sel of
        USE_PTHREAD_MUTEX \<Rightarrow> not_of (call bk pthread_mutex_trylock [Ptr a] w)
      | GLIB_DEFAULT \<Rightarrow> call bk g_mutex_trylock [Ptr a] w)"

definition janus_mutex_trylock_debug :: "backend_sel \<Rightarrow> 'b backend \<Rightarrow> callsite \<Rightarrow> nat \<Rightarrow> 'b world \<Rightarrow> outcome \<times> 'b world" where
  "janus_mutex_trylock_debug sel bk cs a w =
     (let w1 = JANUS_PRINT ''[%s:%s:%d:trylock] %p\<newline>'' (here cs a) w in
      case sel of
        USE_PTHREAD_MUTEX \<Rightarrow> not_of (call bk pthread_mutex_trylock [Ptr a] w1)
      | GLIB_DEFAULT \<Rightarrow> call bk g_mutex_trylock [Ptr a] w1)"

definition janus_mutex_trylock :: "backend_sel \<Rightarrow> 'b backend \<Rightarrow> callsite \<Rightarrow> nat \<Rightarrow> 'b world \<Rightarrow> outcome \<times> 'b world" where
  "janus_mutex_trylock sel bk cs a w =
     (let (d, w0) = read_lock_debug w in
      if lnot d \<noteq> 0 then janus_mutex_trylock_nodebug sel bk a w0
      else janus_mutex_trylock_debug sel bk cs a w0)"

text \<open>
  \<^verbatim>\<open>#define janus_mutex_unlock_nodebug(a) pthread_mutex_unlock(a)\<close>
  \<^verbatim>\<open>#define janus_mutex_unlock_debug(a) { JANUS_PRINT("[%s:%s:%d:unlock] %p\n", __FILE__, __FUNCTION__, __LINE__, a); pthread_mutex_unlock(a); }\<close>
  \<^verbatim>\<open>#define janus_mutex_unlock(a) { if(!lock_debug) { janus_mutex_unlock_nodebug(a); } else { janus_mutex_unlock_debug(a); } }\<close>
  and the same with \<^verbatim>\<open>g_mutex_unlock\<close>.
\<close>

definition janus_mutex_unlock_nodebug :: "backend_sel \<Rightarrow> 'b backend \<Rightarrow> nat \<Rightarrow> 'b world \<Rightarrow> outcome \<times> 'b world" where
  "janus_mutex_unlock_nodebug sel bk a w =
     (case sel of
        USE_PTHREAD_MUTEX \<Rightarrow> call bk pthread_mutex_unlock [Ptr a] w
      | GLIB_DEFAULT \<Rightarrow> call bk g_mutex_unlock [Ptr a] w)"

definition janus_mutex_unlock_debug :: "backend_sel \<Rightarrow> 'b backend \<Rightarrow> callsite \<Rightarrow> nat \<Rightarrow> 'b world \<Rightarrow> outcome \<times> 'b world" where
  "janus_mutex_unlock_debug sel bk cs a w =
     (let w1 = JANUS_PRINT ''[%s:%s:%d:unlock] %p\<newline>'' (here cs a) w in
      case sel of
        USE_PTHREAD_MUTEX \<Rightarrow> stmt (call bk pthread_mutex_unlock [Ptr a] w1)
      | GLIB_DEFAULT \<Rightarrow> stmt (call bk g_mutex_unlock [Ptr a] w1))"

definition janus_mutex_unlock :: "backend_sel \<Rightarrow> 'b backend \<Rightarrow> callsite \<Rightarrow> nat \<Rightarrow> 'b world \<Rightarrow> outcome \<times> 'b world" where
  "janus_mutex_unlock sel bk cs a w =
     (let (d, w0) = read_lock_debug w in
      if lnot d \<noteq> 0 then stmt (janus_mutex_unlock_nodebug sel bk a w0)
      else janus_mutex_unlock_debug sel bk cs a w0)"

subsection \<open>Condition variable (lines 49-68 and 99-112)\<close>

text \<open>
  No condition macro mentions \<^verbatim>\<open>lock_debug\<close> or \<^verbatim>\<open>JANUS_PRINT\<close>.
  \<^verbatim>\<open>#define janus_condition_init(a) pthread_cond_init(a,NULL)\<close>,
  \<^verbatim>\<open>#define janus_condition_init(a) g_cond_init(a)\<close>.
\<close>

definition janus_condition_init :: "backend_sel \<Rightarrow> 'b backend \<Rightarrow> nat \<Rightarrow> 'b world \<Rightarrow> outcome \<times> 'b world" where
  "janus_condition_init sel bk a w =
     (case sel of
        USE_PTHREAD_MUTEX \<Rightarrow> call bk pthread_cond_init [Ptr a, Null] w
      | GLIB_DEFAULT \<Rightarrow> call bk g_cond_init [Ptr a] w)"

definition janus_condition_destroy :: "backend_sel \<Rightarrow> 'b backend \<Rightarrow> nat \<Rightarrow> 'b world \<Rightarrow> outcome \<times> 'b world" where
  "janus_condition_destroy sel bk a w =
     (case sel of
        USE_PTHREAD_MUTEX \<Rightarrow> call bk pthread_cond_destroy [Ptr a] w
      | GLIB_DEFAULT \<Rightarrow> call bk g_cond_clear [Ptr a] w)"

text \<open>
  \<^verbatim>\<open>#define janus_condition_wait(a, b) pthread_cond_wait(a, b);\<close>,
  \<^verbatim>\<open>#define janus_condition_wait(a, b) g_cond_wait(a, b);\<close>: the call, followed
  by an empty statement.
\<close>

definition janus_condition_wait :: "backend_sel \<Rightarrow> 'b backend \<Rightarrow> nat \<Rightarrow> nat \<Rightarrow> 'b world \<Rightarrow> outcome \<times> 'b world" where
  "janus_condition_wait sel bk a b w =
     (case sel of
        USE_PTHREAD_MUTEX \<Rightarrow> call bk pthread_cond_wait [Ptr a, Ptr b] w
      | GLIB_DEFAULT \<Rightarrow> call bk g_cond_wait [Ptr a, Ptr b] w)"

text \<open>
  \<^verbatim>\<open>G_USEC_PER_SEC\<close> is GLib's constant 1000000. The deadline \<open>c\<close> is a
  \<^verbatim>\<open>gint64\<close>, the type \<^verbatim>\<open>g_cond_wait_until\<close> takes in the other branch, so
  \<^verbatim>\<open>c / G_USEC_PER_SEC\<close> and \<^verbatim>\<open>(c % G_USEC_PER_SEC)*1000\<close> are computed in
  64-bit signed arithmetic: division truncates towards zero, the remainder has the sign of
  \<open>c\<close>, the product wraps.
\<close>

definition G_USEC_PER_SEC :: "64 word" where
  "G_USEC_PER_SEC = 1000000"

definition c_div :: "64 word \<Rightarrow> 64 word \<Rightarrow> 64 word" where
  "c_div x y = word_of_int (sint x sdiv sint y)"

definition c_mod :: "64 word \<Rightarrow> 64 word \<Rightarrow> 64 word" where
  "c_mod x y = word_of_int (sint x smod sint y)"

text \<open>
  The macro puts no parentheses round its parameter \<open>c\<close>: the text of the argument
  stands before \<^verbatim>\<open>/ G_USEC_PER_SEC\<close> and \<^verbatim>\<open>% G_USEC_PER_SEC\<close> as it is
  written at the use. So the argument is modelled as the expression it is, by the levels of
  C's grammar that decide how the result parses: a primary expression (a variable, a
  constant or a call, given by its value, or an expression in parentheses), products of
  primaries, and sums and differences of products. \<^verbatim>\<open>now + 1500000\<close> is
  \<open>Add (Mult (Prim (Val now))) (Prim (Val 1500000))\<close>.
\<close>

datatype primary = Val "64 word" | Paren additive
  and multiplicative = Prim primary | Mul multiplicative primary
  and additive = Mult multiplicative | Add additive multiplicative | Sub additive multiplicative

text \<open>The value of the argument where it is evaluated as a whole, in 64-bit arithmetic.\<close>

fun eval_primary :: "primary \<Rightarrow> 64 word"
  and eval_multiplicative :: "multiplicative \<Rightarrow> 64 word"
  and eval_additive :: "additive \<Rightarrow> 64 word" where
  "eval_primary (Val v) = v"
| "eval_primary (Paren e) = eval_additive e"
| "eval_multiplicative (Prim p) = eval_primary p"
| "eval_multiplicative (Mul m p) = eval_multiplicative m * eval_primary p"
| "eval_additive (Mult m) = eval_multiplicative m"
| "eval_additive (Add e m) = eval_additive e + eval_multiplicative m"
| "eval_additive (Sub e m) = eval_additive e - eval_multiplicative m"

text \<open>An argument that is a variable or a constant of value \<open>v\<close>.\<close>

definition var :: "64 word \<Rightarrow> additive" where
  "var v = Mult (Prim (Val v))"

text \<open>
  \<^verbatim>\<open>c / G_USEC_PER_SEC\<close> with the argument's text for \<open>c\<close>: division binds
  tighter than \<^verbatim>\<open>+\<close> and \<^verbatim>\<open>-\<close> and as tight as \<^verbatim>\<open>*\<close>, so it
  divides the last product of the argument only.
\<close>

fun c_over_usec :: "additive \<Rightarrow> 64 word" where
  "c_over_usec (Mult m) = c_div (eval_multiplicative m) G_USEC_PER_SEC"
| "c_over_usec (Add e m) = eval_additive e + c_div (eval_multiplicative m) G_USEC_PER_SEC"
| "c_over_usec (Sub e m) = eval_additive e - c_div (eval_multiplicative m) G_USEC_PER_SEC"

text \<open>\<^verbatim>\<open>c % G_USEC_PER_SEC\<close>, in the same way.\<close>

fun c_mod_usec :: "additive \<Rightarrow> 64 word" where
  "c_mod_usec (Mult m) = c_mod (eval_multiplicative m) G_USEC_PER_SEC"
| "c_mod_usec (Add e m) = eval_additive e + c_mod (eval_multiplicative m) G_USEC_PER_SEC"
| "c_mod_usec (Sub e m) = eval_additive e - c_mod (eval_multiplicative m) G_USEC_PER_SEC"

text \<open>
  \<^verbatim>\<open>const struct timespec jct = { .tv_sec = c / G_USEC_PER_SEC, .tv_nsec = (c % G_USEC_PER_SEC)*1000 };\<close>
\<close>

definition jct :: "additive \<Rightarrow> timespec" where
  "jct c = \<lparr>tv_sec = c_over_usec c, tv_nsec = c_mod_usec c * 1000\<rparr>"

text \<open>
  \<^verbatim>\<open>#define janus_condition_wait_until(a, b, c) { const struct timespec jct = ...; pthread_cond_timedwait(a, b, &jct); }\<close>,
  a block, and
  \<^verbatim>\<open>#define janus_condition_wait_until(a, b, c) g_cond_wait_until(a, b, c);\<close>,
  where \<open>c\<close> is an argument of a call and is evaluated as a whole.
\<close>

definition janus_condition_wait_until :: "backend_sel \<Rightarrow> 'b backend \<Rightarrow> nat \<Rightarrow> nat \<Rightarrow> additive \<Rightarrow> 'b world \<Rightarrow> outcome \<times> 'b world" where
  "janus_condition_wait_until sel bk a b c w =
     (case sel of
        USE_PTHREAD_MUTEX \<Rightarrow> stmt (call bk pthread_cond_timedwait [Ptr a, Ptr b, Ref (jct c)] w)
      | GLIB_DEFAULT \<Rightarrow> call bk g_cond_wait_until [Ptr a, Ptr b, I64 (eval_additive c)] w)"

definition janus_condition_signal :: "backend_sel \<Rightarrow> 'b backend \<Rightarrow> nat \<Rightarrow> 'b world \<Rightarrow> outcome \<times> 'b world" where
  "janus_condition_signal sel bk a w =
     (case sel of
        USE_PTHREAD_MUTEX \<Rightarrow> call bk pthread_cond_signal [Ptr a] w
      | GLIB_DEFAULT \<Rightarrow> call bk g_cond_signal [Ptr a] w)"

definition janus_condition_broadcast :: "backend_sel \<Rightarrow> 'b backend \<Rightarrow> nat \<Rightarrow> 'b world \<Rightarrow> outcome \<times> 'b world" where
  "janus_condition_broadcast sel bk a w =
     (case sel of
        USE_PTHREAD_MUTEX \<Rightarrow> call bk pthread_cond_broadcast [Ptr a] w
      | GLIB_DEFAULT \<Rightarrow> call bk g_cond_broadcast [Ptr a] w)"

subsection \<open>Read-write lock (lines 114-167, in the \<^verbatim>\<open>#else\<close> branch only)\<close>

text \<open>
  \<^verbatim>\<open>#define janus_rwlock_init_nodebug(a) g_rw_lock_init(a)\<close>
  \<^verbatim>\<open>#define janus_rwlock_init_debug(a) { JANUS_PRINT("[%s:%s:%d:rw_init] %p\n", __FILE__, __FUNCTION__, __LINE__, a); g_rw_lock_init(a); }\<close>
  \<^verbatim>\<open>#define janus_rwlock_init(a) { if(!lock_debug) { janus_rwlock_init_nodebug(a); } else { janus_rwlock_init_debug(a); } }\<close>
\<close>

definition janus_rwlock_init_nodebug :: "'b backend \<Rightarrow> nat \<Rightarrow> 'b world \<Rightarrow> outcome \<times> 'b world" where
  "janus_rwlock_init_nodebug bk a w = call bk g_rw_lock_init [Ptr a] w"

definition janus_rwlock_init_debug :: "'b backend \<Rightarrow> callsite \<Rightarrow> nat \<Rightarrow> 'b world \<Rightarrow> outcome \<times> 'b world" where
  "janus_rwlock_init_debug bk cs a w =
     (let w1 = JANUS_PRINT ''[%s:%s:%d:rw_init] %p\<newline>'' (here cs a) w in
      stmt (call bk g_rw_lock_init [Ptr a] w1))"

definition janus_rwlock_init :: "'b backend \<Rightarrow> callsite \<Rightarrow> nat \<Rightarrow> 'b world \<Rightarrow> outcome \<times> 'b world" where
  "janus_rwlock_init bk cs a w =
     (let (d, w0) = read_lock_debug w in
      if lnot d \<noteq> 0 then stmt (janus_rwlock_init_nodebug bk a w0)
      else janus_rwlock_init_debug bk cs a w0)"

text \<open>
  \<^verbatim>\<open>#define janus_rwlock_destroy_nodebug(a) g_rw_lock_clear(a)\<close>
  \<^verbatim>\<open>#define janus_rwlock_destroy_debug(a) { JANUS_PRINT("[%s:%s:%d:rw_dectroy] %p\n", __FILE__, __FUNCTION__, __LINE__, a); janus_rwlock_destroy_nodebug(a); }\<close>
  \<^verbatim>\<open>#define janus_rwlock_destroy(a) { if(!lock_debug) { janus_rwlock_destroy_nodebug(a); } else { janus_rwlock_destroy_debug(a); } }\<close>
\<close>

definition janus_rwlock_destroy_nodebug :: "'b backend \<Rightarrow> nat \<Rightarrow> 'b world \<Rightarrow> outcome \<times> 'b world" where
  "janus_rwlock_destroy_nodebug bk a w = call bk g_rw_lock_clear [Ptr a] w"

definition janus_rwlock_destroy_debug :: "'b backend \<Rightarrow> callsite \<Rightarrow> nat \<Rightarrow> 'b world \<Rightarrow> outcome \<times> 'b world" where
  "janus_rwlock_destroy_debug bk cs a w =
     (let w1 = JANUS_PRINT ''[%s:%s:%d:rw_dectroy] %p\<newline>'' (here cs a) w in
      stmt (janus_rwlock_destroy_nodebug bk a w1))"

definition janus_rwlock_destroy :: "'b backend \<Rightarrow> callsite \<Rightarrow> nat \<Rightarrow> 'b world \<Rightarrow> outcome \<times> 'b world" where
  "janus_rwlock_destroy bk cs a w =
     (let (d, w0) = read_lock_debug w in
      if lnot d \<noteq> 0 then stmt (janus_rwlock_destroy_nodebug bk a w0)
      else janus_rwlock_destroy_debug bk cs a w0)"

text \<open>
  \<^verbatim>\<open>#define janus_rwlock_reader_lock_nodebug(a) g_rw_lock_reader_lock(a)\<close>
  \<^verbatim>\<open>#define janus_rwlock_reader_lock_debug(a) { JANUS_PRINT("[%s:%s:%d:reader_lock] %p\n", __FILE__, __FUNCTION__, __LINE__, a); janus_rwlock_reader_lock_nodebug(a); }\<close>
  \<^verbatim>\<open>#define janus_rwlock_reader_lock(a) { if(!lock_debug) { janus_rwlock_reader_lock_nodebug(a); } else { janus_rwlock_reader_lock_debug(a); } }\<close>
\<close>

definition janus_rwlock_reader_lock_nodebug :: "'b backend \<Rightarrow> nat \<Rightarrow> 'b world \<Rightarrow> outcome \<times> 'b world" where
  "janus_rwlock_reader_lock_nodebug bk a w = call bk g_rw_lock_reader_lock [Ptr a] w"

definition janus_rwlock_reader_lock_debug :: "'b backend \<Rightarrow> callsite \<Rightarrow> nat \<Rightarrow> 'b world \<Rightarrow> outcome \<times> 'b world" where
  "janus_rwlock_reader_lock_debug bk cs a w =
     (let w1 = JANUS_PRINT ''[%s:%s:%d:reader_lock] %p\<newline>'' (here cs a) w in
      stmt (janus_rwlock_reader_lock_nodebug bk a w1))"

definition janus_rwlock_reader_lock :: "'b backend \<Rightarrow> callsite \<Rightarrow> nat \<Rightarrow> 'b world \<Rightarrow> outcome \<times> 'b world" where
  "janus_rwlock_reader_lock bk cs a w =
     (let (d, w0) = read_lock_debug w in
      if lnot d \<noteq> 0 then stmt (janus_rwlock_reader_lock_nodebug bk a w0)
      else janus_rwlock_reader_lock_debug bk cs a w0)"

text \<open>
  \<^verbatim>\<open>#define janus_rwlock_reader_trylock_nodebug(a) { ret = g_rw_lock_reader_trylock(a); }\<close>
  \<^verbatim>\<open>#define janus_rwlock_reader_trylock_debug(a) { JANUS_PRINT("[%s:%s:%d:reader_trylock] %p\n", __FILE__, __FUNCTION__, __LINE__, a); ret = janus_rwlock_reader_trylock(a); }\<close>
  \<^verbatim>\<open>#define janus_rwlock_reader_trylock(a) ({ if(!lock_debug) { janus_rwlock_reader_trylock_nodebug(a); } else { janus_rwlock_reader_trylock_debug(a); } ret; })\<close>
  The debug macro is only ever expanded inside the wrapper, where the wrapper's name
  stays as it is: a call of a function \<^verbatim>\<open>janus_rwlock_reader_trylock\<close>. The wrapper
  declares no \<^verbatim>\<open>ret\<close>, so the assignment goes to the one of the enclosing scope.
\<close>

definition janus_rwlock_reader_trylock_nodebug :: "'b backend \<Rightarrow> nat \<Rightarrow> 'b world \<Rightarrow> outcome \<times> 'b world" where
  "janus_rwlock_reader_trylock_nodebug bk a w = call bk g_rw_lock_reader_trylock [Ptr a] w"

definition janus_rwlock_reader_trylock_debug :: "'b backend \<Rightarrow> callsite \<Rightarrow> nat \<Rightarrow> 'b world \<Rightarrow> outcome \<times> 'b world" where
  "janus_rwlock_reader_trylock_debug bk cs a w =
     (let w1 = JANUS_PRINT ''[%s:%s:%d:reader_trylock] %p\<newline>'' (here cs a) w in
      call bk fn_janus_rwlock_reader_trylock [Ptr a] w1)"

definition janus_rwlock_reader_trylock :: "'b backend \<Rightarrow> callsite \<Rightarrow> nat \<Rightarrow> 'b world \<Rightarrow> outcome \<times> 'b world" where
  "janus_rwlock_reader_trylock bk cs a w =
     (let (d, w0) = read_lock_debug w in
      if lnot d \<noteq> 0 then assign_ret_var (janus_rwlock_reader_trylock_nodebug bk a w0)
      else assign_ret_var (janus_rwlock_reader_trylock_debug bk cs a w0))"

text \<open>
  \<^verbatim>\<open>#define janus_rwlock_reader_unlock_nodebug(a) g_rw_lock_reader_unlock(a)\<close>
  \<^verbatim>\<open>#define janus_rwlock_reader_unlock_debug(a) { JANUS_PRINT("[%s:%s:%d:reader_unlock] %p\n", __FILE__, __FUNCTION__, __LINE__, a); janus_rwlock_reader_unlock_nodebug(a); }\<close>
  \<^verbatim>\<open>#define janus_rwlock_reader_unlock(a) { if(!lock_debug) { janus_rwlock_reader_unlock_nodebug(a); } else { janus_rwlock_reader_unlock_debug(a); } }\<close>
\<close>

definition janus_rwlock_reader_unlock_nodebug :: "'b backend \<Rightarrow> nat \<Rightarrow> 'b world \<Rightarrow> outcome \<times> 'b world" where
  "janus_rwlock_reader_unlock_nodebug bk a w = call bk g_rw_lock_reader_unlock [Ptr a] w"

definition janus_rwlock_reader_unlock_debug :: "'b backend \<Rightarrow> callsite \<Rightarrow> nat \<Rightarrow> 'b world \<Rightarrow> outcome \<times> 'b world" where
  "janus_rwlock_reader_unlock_debug bk cs a w =
     (let w1 = JANUS_PRINT ''[%s:%s:%d:reader_unlock] %p\<newline>'' (here cs a) w in
      stmt (janus_rwlock_reader_unlock_nodebug bk a w1))"

definition janus_rwlock_reader_unlock :: "'b backend \<Rightarrow> callsite \<Rightarrow> nat \<Rightarrow> 'b world \<Rightarrow> outcome \<times> 'b world" where
  "janus_rwlock_reader_unlock bk cs a w =
     (let (d, w0) = read_lock_debug w in
      if lnot d \<noteq> 0 then stmt (janus_rwlock_reader_unlock_nodebug bk a w0)
      else janus_rwlock_reader_unlock_debug bk cs a w0)"

text \<open>
  \<^verbatim>\<open>#define janus_rwlock_writer_lock_debug(a) { JANUS_PRINT("[%s:%s:%d:writer_unlock] %p\n", __FILE__, __FUNCTION__, __LINE__, a); janus_rwlock_writer_lock_nodebug(a); }\<close>
  \<^verbatim>\<open>#define janus_rwlock_writer_lock_nodebug(a)  g_rw_lock_writer_lock(a)\<close>
  \<^verbatim>\<open>#define janus_rwlock_writer_lock(a) { if(!lock_debug) { janus_rwlock_writer_lock_nodebug(a); } else { janus_rwlock_writer_lock_debug(a); } }\<close>
\<close>

definition janus_rwlock_writer_lock_nodebug :: "'b backend \<Rightarrow> nat \<Rightarrow> 'b world \<Rightarrow> outcome \<times> 'b world" where
  "janus_rwlock_writer_lock_nodebug bk a w = call bk g_rw_lock_writer_lock [Ptr a] w"

definition janus_rwlock_writer_lock_debug :: "'b backend \<Rightarrow> callsite \<Rightarrow> nat \<Rightarrow> 'b world \<Rightarrow> outcome \<times> 'b world" where
  "janus_rwlock_writer_lock_debug bk cs a w =
     (let w1 = JANUS_PRINT ''[%s:%s:%d:writer_unlock] %p\<newline>'' (here cs a) w in
      stmt (janus_rwlock_writer_lock_nodebug bk a w1))"

definition janus_rwlock_writer_lock :: "'b backend \<Rightarrow> callsite \<Rightarrow> nat \<Rightarrow> 'b world \<Rightarrow> outcome \<times> 'b world" where
  "janus_rwlock_writer_lock bk cs a w =
     (let (d, w0) = read_lock_debug w in
      if lnot d \<noteq> 0 then stmt (janus_rwlock_writer_lock_nodebug bk a w0)
      else janus_rwlock_writer_lock_debug bk cs a w0)"

text \<open>
  \<^verbatim>\<open>#define janus_rwlock_writer_trylock_nodebug(a) { ret = g_rw_lock_writer_trylock(a); }\<close>
  \<^verbatim>\<open>#define janus_rwlock_writer_trylock_debug(a) { JANUS_PRINT("[%s:%s:%d:writer_trylock] %p\n", __FILE__, __FUNCTION__, __LINE__, a); ret = janus_rwlock_writer_trylock(a); }\<close>
  \<^verbatim>\<open>#define janus_rwlock_writer_trylock(a) ({ gboolean ret; if(!lock_debug) { janus_rwlock_reader_trylock_nodebug(a); } else { janus_rwlock_writer_trylock_debug(a); } ret; })\<close>
  The wrapper's first branch is the reader's helper, and its second branch leaves the
  wrapper's own name unexpanded. No wrapper uses
  \<^verbatim>\<open>janus_rwlock_writer_trylock_nodebug\<close>.
\<close>

definition janus_rwlock_writer_trylock_nodebug :: "'b backend \<Rightarrow> nat \<Rightarrow> 'b world \<Rightarrow> outcome \<times> 'b world" where
  "janus_rwlock_writer_trylock_nodebug bk a w = call bk g_rw_lock_writer_trylock [Ptr a] w"

definition janus_rwlock_writer_trylock_debug :: "'b backend \<Rightarrow> callsite \<Rightarrow> nat \<Rightarrow> 'b world \<Rightarrow> outcome \<times> 'b world" where
  "janus_rwlock_writer_trylock_debug bk cs a w =
     (let w1 = JANUS_PRINT ''[%s:%s:%d:writer_trylock] %p\<newline>'' (here cs a) w in
      call bk fn_janus_rwlock_writer_trylock [Ptr a] w1)"

definition janus_rwlock_writer_trylock :: "'b backend \<Rightarrow> callsite \<Rightarrow> nat \<Rightarrow> 'b world \<Rightarrow> outcome \<times> 'b world" where
  "janus_rwlock_writer_trylock bk cs a w =
     (let (d, w0) = read_lock_debug w in
      if lnot d \<noteq> 0 then janus_rwlock_reader_trylock_nodebug bk a w0
      else janus_rwlock_writer_trylock_debug bk cs a w0)"

text \<open>
  \<^verbatim>\<open>#define janus_rwlock_writer_unlock_nodebug(a) g_rw_lock_writer_unlock(a)\<close>
  \<^verbatim>\<open>#define janus_rwlock_writer_unlock_debug(a) { JANUS_PRINT("[%s:%s:%d:writer_unlock] %p\n", __FILE__, __FUNCTION__, __LINE__, a); janus_rwlock_writer_unlock_nodebug(a); }\<close>
  \<^verbatim>\<open>#define janus_rwlock_writer_unlock(a) { if(!lock_debug) { janus_rwlock_writer_unlock_nodebug(a); } else { janus_rwlock_writer_unlock_debug(a); } }\<close>
\<close>

definition janus_rwlock_writer_unlock_nodebug :: "'b backend \<Rightarrow> nat \<Rightarrow> 'b world \<Rightarrow> outcome \<times> 'b world" where
  "janus_rwlock_writer_unlock_nodebug bk a w = call bk g_rw_lock_writer_unlock [Ptr a] w"

definition janus_rwlock_writer_unlock_debug :: "'b backend \<Rightarrow> callsite \<Rightarrow> nat \<Rightarrow> 'b world \<Rightarrow> outcome \<times> 'b world" where
  "janus_rwlock_writer_unlock_debug bk cs a w =
     (let w1 = JANUS_PRINT ''[%s:%s:%d:writer_unlock] %p\<newline>'' (here cs a) w in
      stmt (janus_rwlock_writer_unlock_nodebug bk a w1))"

definition janus_rwlock_writer_unlock :: "'b backend \<Rightarrow> callsite \<Rightarrow> nat \<Rightarrow> 'b world \<Rightarrow> outcome \<times> 'b world" where
  "janus_rwlock_writer_unlock bk cs a w =
     (let (d, w0) = read_lock_debug w in
      if lnot d \<noteq> 0 then stmt (janus_rwlock_writer_unlock_nodebug bk a w0)
      else janus_rwlock_writer_unlock_debug bk cs a w0)"

subsection \<open>The facade as a whole\<close>

datatype facade_op =
    Mutex_init | Mutex_destroy | Mutex_lock | Mutex_trylock | Mutex_unlock
  | Condition_init | Condition_destroy | Condition_wait | Condition_wait_until
  | Condition_signal | Condition_broadcast
  | Rwlock_init | Rwlock_destroy
  | Rwlock_reader_lock | Rwlock_reader_trylock | Rwlock_reader_unlock
  | Rwlock_writer_lock | Rwlock_writer_trylock | Rwlock_writer_unlock

definition is_rwlock_op :: "facade_op \<Rightarrow> bool" where
  "is_rwlock_op op \<longleftrightarrow> op \<in> {Rwlock_init, Rwlock_destroy, Rwlock_reader_lock,
     Rwlock_reader_trylock, Rwlock_reader_unlock, Rwlock_writer_lock, Rwlock_writer_trylock,
     Rwlock_writer_unlock}"

definition is_condition_op :: "facade_op \<Rightarrow> bool" where
  "is_condition_op op \<longleftrightarrow> op \<in> {Condition_init, Condition_destroy, Condition_wait,
     Condition_wait_until, Condition_signal, Condition_broadcast}"

text \<open>
  Which wrapper names are \<^verbatim>\<open>#define\<close>d under a selection: the read-write lock family
  stands between \<^verbatim>\<open>#else\<close> and \<^verbatim>\<open>#endif\<close> only.
\<close>

definition available :: "backend_sel \<Rightarrow> facade_op \<Rightarrow> bool" where
  "available sel op \<longleftrightarrow> (case sel of USE_PTHREAD_MUTEX \<Rightarrow> \<not> is_rwlock_op op | GLIB_DEFAULT \<Rightarrow> True)"

text \<open>
  A use of a wrapper with handle \<open>a\<close>, mutex \<open>b\<close> and deadline \<open>c\<close> (the last two
  for the condition waits). A name that is not defined under the selection gives \<open>None\<close>:
  the use does not compile.
\<close>

definition facade :: "backend_sel \<Rightarrow> 'b backend \<Rightarrow> callsite \<Rightarrow> facade_op \<Rightarrow> nat \<Rightarrow> nat \<Rightarrow> additive \<Rightarrow> 'b world \<Rightarrow> (outcome \<times> 'b world) option" where
  "facade sel bk cs op a b c w =
     (if \<not> available sel op then None
      else Some (case op of
          Mutex_init \<Rightarrow> janus_mutex_init sel bk a w
        | Mutex_destroy \<Rightarrow> janus_mutex_destroy sel bk a w
        | Mutex_lock \<Rightarrow> janus_mutex_lock sel bk cs a w
        | Mutex_trylock \<Rightarrow> janus_mutex_trylock sel bk cs a w
        | Mutex_unlock \<Rightarrow> janus_mutex_unlock sel bk cs a w
        | Condition_init \<Rightarrow> janus_condition_init sel bk a w
        | Condition_destroy \<Rightarrow> janus_condition_destroy sel bk a w
        | Condition_wait \<Rightarrow> janus_condition_wait sel bk a b w
        | Condition_wait_until \<Rightarrow> janus_condition_wait_until sel bk a b c w
        | Condition_signal \<Rightarrow> janus_condition_signal sel bk a w
        | Condition_broadcast \<Rightarrow> janus_condition_broadcast sel bk a w
        | Rwlock_init \<Rightarrow> janus_rwlock_init bk cs a w
        | Rwlock_destroy \<Rightarrow> janus_rwlock_destroy bk cs a w
        | Rwlock_reader_lock \<Rightarrow> janus_rwlock_reader_lock bk cs a w
        | Rwlock_reader_trylock \<Rightarrow> janus_rwlock_reader_trylock bk cs a w
        | Rwlock_reader_unlock \<Rightarrow> janus_rwlock_reader_unlock bk cs a w
        | Rwlock_writer_lock \<Rightarrow> janus_rwlock_writer_lock bk cs a w
        | Rwlock_writer_trylock \<Rightarrow> janus_rwlock_writer_trylock bk cs a w
        | Rwlock_writer_unlock \<Rightarrow> janus_rwlock_writer_unlock bk cs a w))"

text \<open>
  A run of the program as seen by the facade: uses of wrappers, by any thread, one after
  the other, and writes of \<^verbatim>\<open>lock_debug\<close> by whoever controls the flag. A use that
  never returns leaves its thread inside the primitive; the run goes on with the others.
\<close>

datatype step = Use facade_op callsite nat nat additive | Set_lock_debug int

fun run :: "backend_sel \<Rightarrow> 'b backend \<Rightarrow> step list \<Rightarrow> 'b world \<Rightarrow> 'b world option" where
  "run sel bk [] w = Some w"
| "run sel bk (Set_lock_debug v # ss) w = run sel bk ss (w\<lparr>lock_debug := v\<rparr>)"
| "run sel bk (Use op cs a b c # ss) w =
     (case facade sel bk cs op a b c w of
        None \<Rightarrow> None
      | Some (r, w') \<Rightarrow> run sel bk ss w')"

subsection \<open>What the claims compare the header with\<close>

text \<open>
  The primitive that corresponds to a wrapper by its name, in the selected library; none
  where the selection has no such wrapper.
\<close>

fun corresponding_primitive :: "backend_sel \<Rightarrow> facade_op \<Rightarrow> callee option" where
  "corresponding_primitive USE_PTHREAD_MUTEX Mutex_init = Some pthread_mutex_init"
| "corresponding_primitive USE_PTHREAD_MUTEX Mutex_destroy = Some pthread_mutex_destroy"
| "corresponding_primitive USE_PTHREAD_MUTEX Mutex_lock = Some pthread_mutex_lock"
| "corresponding_primitive USE_PTHREAD_MUTEX Mutex_trylock = Some pthread_mutex_trylock"
| "corresponding_primitive USE_PTHREAD_MUTEX Mutex_unlock = Some pthread_mutex_unlock"
| "corresponding_primitive USE_PTHREAD_MUTEX Condition_init = Some pthread_cond_init"
| "corresponding_primitive USE_PTHREAD_MUTEX Condition_destroy = Some pthread_cond_destroy"
| "corresponding_primitive USE_PTHREAD_MUTEX Condition_wait = Some pthread_cond_wait"
| "corresponding_primitive USE_PTHREAD_MUTEX Condition_wait_until = Some pthread_cond_timedwait"
| "corresponding_primitive USE_PTHREAD_MUTEX Condition_signal = Some pthread_cond_signal"
| "corresponding_primitive USE_PTHREAD_MUTEX Condition_broadcast = Some pthread_cond_broadcast"
| "corresponding_primitive USE_PTHREAD_MUTEX _ = None"
| "corresponding_primitive GLIB_DEFAULT Mutex_init = Some g_mutex_init"
| "corresponding_primitive GLIB_DEFAULT Mutex_destroy = Some g_mutex_clear"
| "corresponding_primitive GLIB_DEFAULT Mutex_lock = Some g_mutex_lock"
| "corresponding_primitive GLIB_DEFAULT Mutex_trylock = Some g_mutex_trylock"
| "corresponding_primitive GLIB_DEFAULT Mutex_unlock = Some g_mutex_unlock"
| "corresponding_primitive GLIB_DEFAULT Condition_init = Some g_cond_init"
| "corresponding_primitive GLIB_DEFAULT Condition_destroy = Some g_cond_clear"
| "corresponding_primitive GLIB_DEFAULT Condition_wait = Some g_cond_wait"
| "corresponding_primitive GLIB_DEFAULT Condition_wait_until = Some g_cond_wait_until"
| "corresponding_primitive GLIB_DEFAULT Condition_signal = Some g_cond_signal"
| "corresponding_primitive GLIB_DEFAULT Condition_broadcast = Some g_cond_broadcast"
| "corresponding_primitive GLIB_DEFAULT Rwlock_init = Some g_rw_lock_init"
| "corresponding_primitive GLIB_DEFAULT Rwlock_destroy = Some g_rw_lock_clear"
| "corresponding_primitive GLIB_DEFAULT Rwlock_reader_lock = Some g_rw_lock_reader_lock"
| "corresponding_primitive GLIB_DEFAULT Rwlock_reader_trylock = Some g_rw_lock_reader_trylock"
| "corresponding_primitive GLIB_DEFAULT Rwlock_reader_unlock = Some g_rw_lock_reader_unlock"
| "corresponding_primitive GLIB_DEFAULT Rwlock_writer_lock = Some g_rw_lock_writer_lock"
| "corresponding_primitive GLIB_DEFAULT Rwlock_writer_trylock = Some g_rw_lock_writer_trylock"
| "corresponding_primitive GLIB_DEFAULT Rwlock_writer_unlock = Some g_rw_lock_writer_unlock"

text \<open>
  The arguments the corresponding primitive is to get: the handle, and with it what the
  primitive's signature adds (\<^verbatim>\<open>NULL\<close> attributes, the mutex of a wait, the
  deadline as the wrapper of that selection passes it).
\<close>

definition primitive_args :: "backend_sel \<Rightarrow> facade_op \<Rightarrow> nat \<Rightarrow> nat \<Rightarrow> additive \<Rightarrow> carg list" where
  "primitive_args sel op a b c =
     (if op = Mutex_init \<or> op = Condition_init then
        (case sel of USE_PTHREAD_MUTEX \<Rightarrow> [Ptr a, Null] | GLIB_DEFAULT \<Rightarrow> [Ptr a])
      else if op = Condition_wait then [Ptr a, Ptr b]
      else if op = Condition_wait_until then
        (case sel of
           USE_PTHREAD_MUTEX \<Rightarrow> [Ptr a, Ptr b, Ref (jct c)]
         | GLIB_DEFAULT \<Rightarrow> [Ptr a, Ptr b, I64 (eval_additive c)])
      else [Ptr a])"

text \<open>
  The wrappers that are blocks \<^verbatim>\<open>{ ... }\<close>, which have no value: lock and unlock of
  the mutex, the read-write lock wrappers other than the two trylocks, and the timed wait
  under \<^verbatim>\<open>USE_PTHREAD_MUTEX\<close>.
\<close>

definition is_block :: "backend_sel \<Rightarrow> facade_op \<Rightarrow> bool" where
  "is_block sel op \<longleftrightarrow>
     op \<in> {Mutex_lock, Mutex_unlock, Rwlock_init, Rwlock_destroy, Rwlock_reader_lock,
       Rwlock_reader_unlock, Rwlock_writer_lock, Rwlock_writer_unlock}
     \<or> (sel = USE_PTHREAD_MUTEX \<and> op = Condition_wait_until)"

text \<open>The wrappers that have a trace point: a \<^verbatim>\<open>_debug\<close> variant with a \<^verbatim>\<open>JANUS_PRINT\<close>.\<close>

definition has_trace_point :: "facade_op \<Rightarrow> bool" where
  "has_trace_point op \<longleftrightarrow> op \<in> {Mutex_lock, Mutex_trylock, Mutex_unlock} \<or> is_rwlock_op op"

text \<open>
  The trace line of the interface description:
  \<^verbatim>\<open>[<file>:<function>:<line>:<operation>] <handle-identity>\<close>, ended by a newline.
\<close>

definition trace_line :: "callsite \<Rightarrow> string \<Rightarrow> nat \<Rightarrow> string" where
  "trace_line cs tag a =
     ''['' @ cs_file cs @ '':'' @ cs_function cs @ '':'' @ dec_digits (cs_line cs) @ '':'' @ tag
       @ ''] '' @ show_ptr a @ ''\<newline>''"

text \<open>The operation tag the interface description gives each traced wrapper.\<close>

fun operation_tag :: "facade_op \<Rightarrow> string option" where
  "operation_tag Mutex_lock = Some ''lock''"
| "operation_tag Mutex_trylock = Some ''trylock''"
| "operation_tag Mutex_unlock = Some ''unlock''"
| "operation_tag Rwlock_init = Some ''rw_init''"
| "operation_tag Rwlock_destroy = Some ''rw_destroy''"
| "operation_tag Rwlock_reader_lock = Some ''reader_lock''"
| "operation_tag Rwlock_reader_trylock = Some ''reader_trylock''"
| "operation_tag Rwlock_reader_unlock = Some ''reader_unlock''"
| "operation_tag Rwlock_writer_lock = Some ''writer_lock''"
| "operation_tag Rwlock_writer_trylock = Some ''writer_trylock''"
| "operation_tag Rwlock_writer_unlock = Some ''writer_unlock''"
| "operation_tag _ = None"

text \<open>The lines a use has added to the sink.\<close>

definition emitted :: "'b world \<Rightarrow> 'b world \<Rightarrow> string list" where
  "emitted w w' = drop (length (sink w)) (sink w')"

text \<open>Steps that leave the flag unset: uses of defined wrappers, and writes of 0.\<close>

fun quiet_step :: "backend_sel \<Rightarrow> step \<Rightarrow> bool" where
  "quiet_step sel (Use op cs a b c) = available sel op"
| "quiet_step sel (Set_lock_debug v) = (v = 0)"

fun uses :: "step list \<Rightarrow> nat" where
  "uses [] = 0"
| "uses (Use op cs a b c # ss) = Suc (uses ss)"
| "uses (Set_lock_debug v # ss) = uses ss"

text \<open>
  The tag in the format string of each trace point, as the header has it (lines 33, 39,
  45, 121, 129, 135, 141, 147, 151, 159, 165 for the read-write lock and the pthread mutex;
  lines 83, 89, 95 repeat the mutex tags).
\<close>

fun printed_tag :: "facade_op \<Rightarrow> string" where
  "printed_tag Mutex_lock = ''lock''"
| "printed_tag Mutex_trylock = ''trylock''"
| "printed_tag Mutex_unlock = ''unlock''"
| "printed_tag Rwlock_init = ''rw_init''"
| "printed_tag Rwlock_destroy = ''rw_dectroy''"
| "printed_tag Rwlock_reader_lock = ''reader_lock''"
| "printed_tag Rwlock_reader_trylock = ''reader_trylock''"
| "printed_tag Rwlock_reader_unlock = ''reader_unlock''"
| "printed_tag Rwlock_writer_lock = ''writer_unlock''"
| "printed_tag Rwlock_writer_trylock = ''writer_trylock''"
| "printed_tag Rwlock_writer_unlock = ''writer_unlock''"
| "printed_tag _ = []"

text \<open>Steps that compile under a selection; the flag may be written at will.\<close>

fun defined_step :: "backend_sel \<Rightarrow> step \<Rightarrow> bool" where
  "defined_step sel (Use op cs a b c) = available sel op"
| "defined_step sel (Set_lock_debug v) = True"

subsection \<open>Concrete libraries and worlds\<close>

text \<open>A library in which every primitive returns \<open>v\<close> at once.\<close>

definition returning :: "int \<Rightarrow> unit backend" where
  "returning v f args s = Some (v, s)"

text \<open>A library in which no primitive ever returns.\<close>

definition stuck :: "unit backend" where
  "stuck f args s = None"

definition fresh :: "int \<Rightarrow> 'b \<Rightarrow> 'b world" where
  "fresh d s = \<lparr>lock_debug = d, flag_reads = 0, sink = [], calls = [], ret_var = 0, bstate = s\<rparr>"

definition at_main :: callsite where
  "at_main = \<lparr>cs_file = ''janus.c'', cs_function = ''main'', cs_line = 42\<rparr>"

text \<open>
  Modelled from the spec: GLib's \<^verbatim>\<open>GRWLock\<close> is not in src/. The spec gives it the
  standard semantics: any number of concurrent readers; a writer excludes all readers and
  other writers. A lock is the number of readers that hold it and whether a writer does;
  a lock call that would have to wait does not return, a trylock returns 1 (acquired) or
  0 at once.
\<close>

record rw =
  readers :: nat
  writer :: bool

definition grwlock_step :: "callee \<Rightarrow> rw \<Rightarrow> (int \<times> rw) option" where
  "grwlock_step f l =
     (if f = g_rw_lock_init then Some (0, \<lparr>readers = 0, writer = False\<rparr>)
      else if f = g_rw_lock_reader_lock then
        (if writer l then None else Some (0, l\<lparr>readers := readers l + 1\<rparr>))
      else if f = g_rw_lock_reader_trylock then
        (if writer l then Some (0, l) else Some (1, l\<lparr>readers := readers l + 1\<rparr>))
      else if f = g_rw_lock_reader_unlock then Some (0, l\<lparr>readers := readers l - 1\<rparr>)
      else if f = g_rw_lock_writer_lock then
        (if writer l \<or> 0 < readers l then None else Some (0, l\<lparr>writer := True\<rparr>))
      else if f = g_rw_lock_writer_trylock then
        (if writer l \<or> 0 < readers l then Some (0, l) else Some (1, l\<lparr>writer := True\<rparr>))
      else if f = g_rw_lock_writer_unlock then Some (0, l\<lparr>writer := False\<rparr>)
      else Some (0, l))"

definition grwlock :: "(nat \<Rightarrow> rw) backend" where
  "grwlock f args s =
     (case args of
        Ptr a # _ \<Rightarrow> map_option (\<lambda>(r, l). (r, s(a := l))) (grwlock_step f (s a))
      | _ \<Rightarrow> Some (0, s))"

definition no_locks :: "nat \<Rightarrow> rw" where
  "no_locks a = \<lparr>readers = 0, writer = False\<rparr>"

text \<open>
  Two threads have taken the lock at address 31 for reading, each through the wrapper.
\<close>

definition two_readers :: "(nat \<Rightarrow> rw) world" where
  "two_readers =
     snd (janus_rwlock_reader_lock grwlock at_main 31
       (snd (janus_rwlock_reader_lock grwlock at_main 31
         (snd (janus_rwlock_init grwlock at_main 31 (fresh 0 no_locks))))))"

text \<open>A run in which the flag stays unset.\<close>

definition quiet_run :: "step list" where
  "quiet_run = [Use Mutex_lock at_main 31 0 (var 0), Set_lock_debug 0,
     Use Rwlock_writer_trylock at_main 47 0 (var 0), Use Condition_wait_until at_main 5 31 (var 1500000),
     Use Mutex_unlock at_main 31 0 (var 0)]"

section \<open>Properties\<close>

subsection \<open>Unfolding the wrappers\<close>

lemmas wrapper_defs =
  janus_mutex_init_def janus_mutex_destroy_def
  janus_mutex_lock_def janus_mutex_lock_nodebug_def janus_mutex_lock_debug_def
  janus_mutex_trylock_def janus_mutex_trylock_nodebug_def janus_mutex_trylock_debug_def
  janus_mutex_unlock_def janus_mutex_unlock_nodebug_def janus_mutex_unlock_debug_def
  janus_condition_init_def janus_condition_destroy_def janus_condition_wait_def
  janus_condition_wait_until_def janus_condition_signal_def janus_condition_broadcast_def
  janus_rwlock_init_def janus_rwlock_init_nodebug_def janus_rwlock_init_debug_def
  janus_rwlock_destroy_def janus_rwlock_destroy_nodebug_def janus_rwlock_destroy_debug_def
  janus_rwlock_reader_lock_def janus_rwlock_reader_lock_nodebug_def janus_rwlock_reader_lock_debug_def
  janus_rwlock_reader_trylock_def janus_rwlock_reader_trylock_nodebug_def janus_rwlock_reader_trylock_debug_def
  janus_rwlock_reader_unlock_def janus_rwlock_reader_unlock_nodebug_def janus_rwlock_reader_unlock_debug_def
  janus_rwlock_writer_lock_def janus_rwlock_writer_lock_nodebug_def janus_rwlock_writer_lock_debug_def
  janus_rwlock_writer_trylock_def janus_rwlock_writer_trylock_nodebug_def janus_rwlock_writer_trylock_debug_def
  janus_rwlock_writer_unlock_def janus_rwlock_writer_unlock_nodebug_def janus_rwlock_writer_unlock_debug_def

text \<open>Each format string of the header, applied to a call site and a handle.\<close>

lemma format_lock:
  "format ''[%s:%s:%d:lock] %p\<newline>'' (here cs a) = Some (trace_line cs ''lock'' a)"
  by (simp add: here_def trace_line_def)

lemma format_trylock:
  "format ''[%s:%s:%d:trylock] %p\<newline>'' (here cs a) = Some (trace_line cs ''trylock'' a)"
  by (simp add: here_def trace_line_def)

lemma format_unlock:
  "format ''[%s:%s:%d:unlock] %p\<newline>'' (here cs a) = Some (trace_line cs ''unlock'' a)"
  by (simp add: here_def trace_line_def)

lemma format_rw_init:
  "format ''[%s:%s:%d:rw_init] %p\<newline>'' (here cs a) = Some (trace_line cs ''rw_init'' a)"
  by (simp add: here_def trace_line_def)

lemma format_rw_dectroy:
  "format ''[%s:%s:%d:rw_dectroy] %p\<newline>'' (here cs a) = Some (trace_line cs ''rw_dectroy'' a)"
  by (simp add: here_def trace_line_def)

lemma format_reader_lock:
  "format ''[%s:%s:%d:reader_lock] %p\<newline>'' (here cs a) = Some (trace_line cs ''reader_lock'' a)"
  by (simp add: here_def trace_line_def)

lemma format_reader_trylock:
  "format ''[%s:%s:%d:reader_trylock] %p\<newline>'' (here cs a) = Some (trace_line cs ''reader_trylock'' a)"
  by (simp add: here_def trace_line_def)

lemma format_reader_unlock:
  "format ''[%s:%s:%d:reader_unlock] %p\<newline>'' (here cs a) = Some (trace_line cs ''reader_unlock'' a)"
  by (simp add: here_def trace_line_def)

lemma format_writer_unlock:
  "format ''[%s:%s:%d:writer_unlock] %p\<newline>'' (here cs a) = Some (trace_line cs ''writer_unlock'' a)"
  by (simp add: here_def trace_line_def)

lemma format_writer_trylock:
  "format ''[%s:%s:%d:writer_trylock] %p\<newline>'' (here cs a) = Some (trace_line cs ''writer_trylock'' a)"
  by (simp add: here_def trace_line_def)

declare format.simps [simp del]

lemmas formats = format_lock format_trylock format_unlock format_rw_init format_rw_dectroy
  format_reader_lock format_reader_trylock format_reader_unlock format_writer_unlock
  format_writer_trylock

lemmas run_defs = facade_def available_def is_rwlock_op_def wrapper_defs read_lock_debug_def
  call_def JANUS_PRINT_def formats lnot_def Let_def

subsection \<open>Try-lock of the mutex under pthread\<close>

text \<open>
  Claim C10. Under \<^verbatim>\<open>USE_PTHREAD_MUTEX\<close>, \<^verbatim>\<open>janus_mutex_trylock\<close> yields 1
  (acquired) exactly when \<^verbatim>\<open>pthread_mutex_trylock\<close> returns 0, and 0 for every other
  return code, whatever the value of \<^verbatim>\<open>lock_debug\<close>: the caller cannot tell
  \<^verbatim>\<open>EBUSY\<close> from any other error.
\<close>

theorem pthread_trylock_collapses:
  assumes "bk pthread_mutex_trylock [Ptr a] (bstate w) = Some (r, s')"
  shows "fst (janus_mutex_trylock USE_PTHREAD_MUTEX bk cs a w) = Value (if r = 0 then 1 else 0)"
  using assms by (simp add: run_defs split: option.splits)

text \<open>With \<^verbatim>\<open>EBUSY\<close> (16), \<^verbatim>\<open>EINVAL\<close> (22) and success (0).\<close>

theorem pthread_trylock_collapses_witness:
  "returning 16 pthread_mutex_trylock [Ptr 31] (bstate (fresh 0 ())) = Some (16, ())
   \<and> fst (janus_mutex_trylock USE_PTHREAD_MUTEX (returning 16) at_main 31 (fresh 0 ())) = Value 0
   \<and> fst (janus_mutex_trylock USE_PTHREAD_MUTEX (returning 22) at_main 31 (fresh 1 ())) = Value 0
   \<and> fst (janus_mutex_trylock USE_PTHREAD_MUTEX (returning 0) at_main 31 (fresh 1 ())) = Value 1"
  using pthread_trylock_collapses [of "returning 16" 31 "fresh 0 ()" 16 "()" at_main]
    pthread_trylock_collapses [of "returning 22" 31 "fresh 1 ()" 22 "()" at_main]
    pthread_trylock_collapses [of "returning 0" 31 "fresh 1 ()" 0 "()" at_main]
  by (simp add: returning_def fresh_def)

subsection \<open>Where nothing is traced\<close>

text \<open>
  Claim C7. The six condition wrappers never hand anything to the trace sink, whatever the
  value of \<^verbatim>\<open>lock_debug\<close>, which they do not even read.
\<close>

theorem condition_ops_silent:
  assumes "is_condition_op op"
  shows "\<exists>r w'. facade sel bk cs op a b c w = Some (r, w')
     \<and> sink w' = sink w \<and> flag_reads w' = flag_reads w"
  using assms
  by (cases sel; cases op; simp add: is_condition_op_def run_defs split: option.splits)

theorem condition_ops_silent_witness:
  "is_condition_op Condition_signal
   \<and> (\<exists>r w'. facade USE_PTHREAD_MUTEX (returning 0) at_main Condition_signal 31 0 (var 0) (fresh 1 ()) = Some (r, w')
        \<and> sink w' = sink (fresh 1 ()) \<and> flag_reads w' = flag_reads (fresh 1 ()))"
  using condition_ops_silent [of Condition_signal USE_PTHREAD_MUTEX "returning 0" at_main 31 0 "var 0" "fresh 1 ()"]
  by (simp add: is_condition_op_def)

text \<open>One use of a wrapper while the flag is unset: one call, no line.\<close>

lemma facade_unset:
  assumes "available sel op" and "lock_debug w = 0"
  shows "\<exists>r w'. facade sel bk cs op a b c w = Some (r, w') \<and> sink w' = sink w
     \<and> lock_debug w' = 0 \<and> length (calls w') = Suc (length (calls w))"
  using assms
  by (cases sel; cases op; simp add: run_defs split: option.splits)

text \<open>
  Claim C6. While \<^verbatim>\<open>lock_debug\<close> is 0, no sequence of uses of the wrappers adds
  anything to the trace sink; every use issues its one call and nothing else.
\<close>

theorem no_trace_when_unset:
  assumes "lock_debug w = 0" and "list_all (quiet_step sel) ss"
  shows "\<exists>w'. run sel bk ss w = Some w' \<and> sink w' = sink w \<and> lock_debug w' = 0
     \<and> length (calls w') = length (calls w) + uses ss"
  using assms
proof (induction ss arbitrary: w)
  case Nil
  then show ?case by simp
next
  case (Cons s ss)
  show ?case
  proof (cases s)
    case (Use op cs a b c)
    with Cons.prems have "available sel op" by simp
    from facade_unset [OF this Cons.prems(1), of bk cs a b c]
    obtain r w1 where f: "facade sel bk cs op a b c w = Some (r, w1)"
      and w1: "sink w1 = sink w" "lock_debug w1 = 0" "length (calls w1) = Suc (length (calls w))"
      by blast
    from Cons.prems have "list_all (quiet_step sel) ss" by simp
    from Cons.IH [OF w1(2) this] obtain w' where
      "run sel bk ss w1 = Some w'" "sink w' = sink w1" "lock_debug w' = 0"
      "length (calls w') = length (calls w1) + uses ss"
      by blast
    with f w1 Use show ?thesis by simp
  next
    case (Set_lock_debug v)
    with Cons.prems have v: "v = 0" by simp
    from Cons.prems have q: "list_all (quiet_step sel) ss" by simp
    have "lock_debug (w\<lparr>lock_debug := v\<rparr>) = 0" using v by simp
    from Cons.IH [OF this q] Set_lock_debug show ?thesis by simp
  qed
qed

theorem no_trace_when_unset_witness:
  "lock_debug (fresh 0 ()) = 0 \<and> list_all (quiet_step GLIB_DEFAULT) quiet_run
   \<and> (\<exists>w'. run GLIB_DEFAULT (returning 1) quiet_run (fresh 0 ()) = Some w' \<and> sink w' = []
        \<and> lock_debug w' = 0 \<and> length (calls w') = uses quiet_run)"
  using no_trace_when_unset [where w = "fresh 0 ()" and ss = quiet_run and sel = GLIB_DEFAULT
      and bk = "returning 1"]
  by (simp add: quiet_run_def fresh_def available_def)

subsection \<open>The deadline of the timed wait\<close>

lemma sint_usec: "sint G_USEC_PER_SEC = 1000000"
  by (simp add: G_USEC_PER_SEC_def)

lemma sint_of_small:
  assumes "0 \<le> x" and "x < 2 ^ 63"
  shows "sint (word_of_int x :: 64 word) = x"
  using assms by (simp add: sint_sbintrunc' signed_take_bit_int_eq_self)

text \<open>
  An argument that is a variable, a constant, a call, an expression in parentheses, or a
  product of such, and whose value \<open>c\<close> is not negative: the pthread branch passes
  \<^verbatim>\<open>tv_sec\<close> = \<open>c div 1000000\<close> and \<^verbatim>\<open>tv_nsec\<close> = \<open>(c mod 1000000) * 1000\<close>,
  read as signed 64-bit values; nothing wraps, and the two fields together are \<open>c\<close>
  again, in nanoseconds. The GLib branch passes the value of any argument as it is.
\<close>

lemma wait_until_deadline_product:
  assumes "0 \<le> sint (eval_multiplicative m)"
  shows "janus_condition_wait_until USE_PTHREAD_MUTEX bk a b (Mult m) w
       = stmt (call bk pthread_cond_timedwait [Ptr a, Ptr b, Ref (jct (Mult m))] w)
     \<and> sint (tv_sec (jct (Mult m))) = sint (eval_multiplicative m) div 1000000
     \<and> sint (tv_nsec (jct (Mult m))) = (sint (eval_multiplicative m) mod 1000000) * 1000
     \<and> sint (tv_sec (jct (Mult m))) * 1000000000 + sint (tv_nsec (jct (Mult m)))
       = sint (eval_multiplicative m) * 1000
     \<and> janus_condition_wait_until GLIB_DEFAULT bk a b c w
       = call bk g_cond_wait_until [Ptr a, Ptr b, I64 (eval_additive c)] w"
proof -
  define x where "x = eval_multiplicative m"
  have nonneg: "0 \<le> sint x"
    using assms by (simp add: x_def)
  have lt: "sint x < 2 ^ 63"
    using sint_lt [of x] by simp
  have d: "sint x sdiv 1000000 = sint x div 1000000"
    using nonneg by (simp add: signed_divide_int_def sgn_if)
  have m: "sint x smod 1000000 = sint x mod 1000000"
    using nonneg by (simp add: signed_modulo_int_def sgn_if)
  have dl: "0 \<le> sint x div 1000000" "sint x div 1000000 < 2 ^ 63"
    using nonneg lt by (simp_all add: div_int_pos_iff)
  have ml: "0 \<le> sint x mod 1000000 * 1000" "sint x mod 1000000 * 1000 < 2 ^ 63"
    by simp_all
  have sec: "sint (tv_sec (jct (Mult m))) = sint x div 1000000"
    using dl by (simp add: jct_def c_div_def sint_usec d sint_of_small x_def [symmetric])
  have n: "tv_nsec (jct (Mult m)) = word_of_int (sint x mod 1000000 * 1000)"
    by (simp add: jct_def c_mod_def sint_usec m x_def [symmetric])
  have nsec: "sint (tv_nsec (jct (Mult m))) = sint x mod 1000000 * 1000"
    unfolding n by (rule sint_of_small) (rule ml)+
  have whole: "sint x div 1000000 * 1000000000 + sint x mod 1000000 * 1000 = sint x * 1000"
    by presburger
  show ?thesis
    using sec nsec whole by (simp add: janus_condition_wait_until_def x_def)
qed

text \<open>
  Claim C5 has the timed wait pass every deadline \<open>c \<ge> 0\<close> on without loss: under
  \<^verbatim>\<open>USE_PTHREAD_MUTEX\<close> as \<open>c div 1000000\<close> seconds and
  \<open>(c mod 1000000) * 1000\<close> nanoseconds. With \<^verbatim>\<open>now\<close> = 1000000 and the argument
  \<^verbatim>\<open>now + 1500000\<close>, the deadline is 2500000, which is 2 seconds and 500000000
  nanoseconds. The pthread branch divides and reduces the last summand only and passes
  1000001 seconds and 1500000000 nanoseconds. The GLib branch passes 2500000.
\<close>

theorem wait_until_sum_argument:
  "eval_additive (Add (var 1000000) (Prim (Val 1500000))) = 2500000
   \<and> jct (var 2500000) = \<lparr>tv_sec = 2, tv_nsec = 500000000\<rparr>
   \<and> jct (Add (var 1000000) (Prim (Val 1500000))) = \<lparr>tv_sec = 1000001, tv_nsec = 1500000000\<rparr>
   \<and> janus_condition_wait_until USE_PTHREAD_MUTEX (returning 0) 5 31
        (Add (var 1000000) (Prim (Val 1500000))) (fresh 0 ())
       = (No_value, fresh 0 ()\<lparr>calls := [(pthread_cond_timedwait,
            [Ptr 5, Ptr 31, Ref \<lparr>tv_sec = 1000001, tv_nsec = 1500000000\<rparr>])]\<rparr>)
   \<and> janus_condition_wait_until GLIB_DEFAULT (returning 0) 5 31
        (Add (var 1000000) (Prim (Val 1500000))) (fresh 0 ())
       = (Value 0, fresh 0 ()\<lparr>calls := [(g_cond_wait_until, [Ptr 5, Ptr 31, I64 2500000])]\<rparr>)"
  by (simp add: janus_condition_wait_until_def jct_def var_def c_div_def c_mod_def
      G_USEC_PER_SEC_def signed_divide_int_def signed_modulo_int_def call_def returning_def
      fresh_def)

subsection \<open>Delegation to the primitives\<close>

text \<open>
  The facade does not always hand back what the primitive returned. Under
  \<^verbatim>\<open>USE_PTHREAD_MUTEX\<close> the try-lock yields 1 where \<^verbatim>\<open>pthread_mutex_trylock\<close>
  returned 0, and \<^verbatim>\<open>janus_mutex_lock\<close>, a block, yields nothing where
  \<^verbatim>\<open>pthread_mutex_lock\<close> returned 22. And \<^verbatim>\<open>janus_rwlock_writer_trylock\<close>,
  with the flag unset, calls \<^verbatim>\<open>g_rw_lock_reader_trylock\<close>.
\<close>

theorem facade_alters_result:
  "returning 0 pthread_mutex_trylock [Ptr 31] () = Some (0, ())
   \<and> facade USE_PTHREAD_MUTEX (returning 0) at_main Mutex_trylock 31 0 (var 0) (fresh 0 ())
       = Some (Value 1, fresh 0 ()\<lparr>flag_reads := 1, calls := [(pthread_mutex_trylock, [Ptr 31])]\<rparr>)
   \<and> returning 22 pthread_mutex_lock [Ptr 31] () = Some (22, ())
   \<and> facade USE_PTHREAD_MUTEX (returning 22) at_main Mutex_lock 31 0 (var 0) (fresh 0 ())
       = Some (No_value, fresh 0 ()\<lparr>flag_reads := 1, calls := [(pthread_mutex_lock, [Ptr 31])]\<rparr>)
   \<and> facade GLIB_DEFAULT (returning 1) at_main Rwlock_writer_trylock 31 0 (var 0) (fresh 0 ())
       = Some (Value 1, fresh 0 ()\<lparr>flag_reads := 1, calls := [(g_rw_lock_reader_trylock, [Ptr 31])]\<rparr>)"
  by (simp add: run_defs returning_def fresh_def)

text \<open>
  Claim C1, as amended. Every wrapper other than the two try-locks of the read-write lock
  issues, whatever the value of \<^verbatim>\<open>lock_debug\<close>, exactly one call: of the
  corresponding primitive, with the handle and the corresponding arguments. It returns
  exactly when the primitive does, and leaves the library in the state the primitive
  left. An expression wrapper yields the primitive's value unchanged, the try-lock under
  \<^verbatim>\<open>USE_PTHREAD_MUTEX\<close> yields its negation, and a block yields no value.
\<close>

theorem facade_delegates:
  assumes "available sel op" and "op \<noteq> Rwlock_reader_trylock" and "op \<noteq> Rwlock_writer_trylock"
  shows "\<exists>p r w'. corresponding_primitive sel op = Some p
     \<and> facade sel bk cs op a b c w = Some (r, w')
     \<and> calls w' = calls w @ [(p, primitive_args sel op a b c)]
     \<and> (case bk p (primitive_args sel op a b c) (bstate w) of
          None \<Rightarrow> r = Blocks \<and> bstate w' = bstate w
        | Some (v, s') \<Rightarrow> bstate w' = s'
            \<and> r = (if is_block sel op then No_value
                   else if sel = USE_PTHREAD_MUTEX \<and> op = Mutex_trylock then Value (lnot v)
                   else Value v))"
  using assms
  by (cases sel; cases op;
      simp add: run_defs primitive_args_def is_block_def split: option.splits)

theorem facade_delegates_witness:
  "available GLIB_DEFAULT Rwlock_reader_lock
   \<and> Rwlock_reader_lock \<noteq> Rwlock_reader_trylock \<and> Rwlock_reader_lock \<noteq> Rwlock_writer_trylock
   \<and> (\<exists>r w'. facade GLIB_DEFAULT grwlock at_main Rwlock_reader_lock 31 0 (var 0) (fresh 1 no_locks) = Some (r, w')
        \<and> calls w' = [(g_rw_lock_reader_lock, [Ptr 31])]
        \<and> bstate w' = no_locks(31 := \<lparr>readers = 1, writer = False\<rparr>) \<and> r = No_value)"
  using facade_delegates [of GLIB_DEFAULT Rwlock_reader_lock grwlock at_main 31 0 "var 0" "fresh 1 no_locks"]
  by (simp add: available_def primitive_args_def is_block_def fresh_def grwlock_def
      grwlock_step_def no_locks_def)

subsection \<open>Trace lines\<close>

text \<open>
  What any use of a wrapper does to the flag and to the sink: a wrapper with a trace point
  reads the flag once and, when it is set, adds one line, with the tag of its format string;
  the others neither read nor print. This holds whether or not the primitive returns: the
  line is handed over before the call.
\<close>

lemma facade_sink:
  assumes "available sel op"
  shows "\<exists>r w'. facade sel bk cs op a b c w = Some (r, w')
     \<and> lock_debug w' = lock_debug w
     \<and> flag_reads w' = flag_reads w + (if has_trace_point op then 1 else 0)
     \<and> sink w' = sink w @ (if has_trace_point op \<and> lock_debug w \<noteq> 0
                             then [trace_line cs (printed_tag op) a] else [])"
  using assms
  by (cases sel; cases op;
      simp add: run_defs has_trace_point_def split: option.splits)

text \<open>
  The traced wrappers other than \<^verbatim>\<open>janus_rwlock_destroy\<close> and
  \<^verbatim>\<open>janus_rwlock_writer_lock\<close> print the line of the interface description, with
  their own tag.
\<close>

lemma trace_lines_of_the_rest:
  assumes "available sel op" and "lock_debug w \<noteq> 0" and "operation_tag op = Some tag"
    and "op \<noteq> Rwlock_destroy" and "op \<noteq> Rwlock_writer_lock"
  shows "\<exists>r w'. facade sel bk cs op a b c w = Some (r, w')
     \<and> sink w' = sink w @ [trace_line cs tag a]"
  using assms facade_sink [OF assms(1), of bk cs a b c w]
  by (cases op; auto simp add: has_trace_point_def is_rwlock_op_def)

text \<open>
  Claim C2 asks for one trace line per traced operation, with the tag of that operation.
  With the flag set, \<^verbatim>\<open>janus_rwlock_destroy\<close> prints the tag
  \<^verbatim>\<open>rw_dectroy\<close>, not \<^verbatim>\<open>rw_destroy\<close>, and
  \<^verbatim>\<open>janus_rwlock_writer_lock\<close> prints \<^verbatim>\<open>writer_unlock\<close>, not
  \<^verbatim>\<open>writer_lock\<close>.
\<close>

theorem trace_tag_slips:
  "sink (snd (janus_rwlock_destroy (returning 0) at_main 31 (fresh 1 ())))
     = [''[janus.c:main:42:rw_dectroy] 0x1f\<newline>'']
   \<and> sink (snd (janus_rwlock_writer_lock (returning 0) at_main 31 (fresh 1 ())))
     = [''[janus.c:main:42:writer_unlock] 0x1f\<newline>'']
   \<and> trace_line at_main ''rw_destroy'' 31 = ''[janus.c:main:42:rw_destroy] 0x1f\<newline>''
   \<and> trace_line at_main ''writer_lock'' 31 = ''[janus.c:main:42:writer_lock] 0x1f\<newline>''"
  by (simp add: run_defs returning_def fresh_def trace_line_def at_main_def show_ptr_def
      dec_digits.simps hex_digits.simps)

subsection \<open>The two selections\<close>




subsection \<open>The try-locks of the read-write lock\<close>

text \<open>
  Claim C4 has every try-lock wrapper yield whether the lock was acquired, from one call of
  the library's matching try-lock. With the flag set, \<^verbatim>\<open>janus_rwlock_reader_trylock\<close>
  and \<^verbatim>\<open>janus_rwlock_writer_trylock\<close> call no primitive of the library: each calls
  a function of its own name. With the flag unset, the writer's wrapper calls the reader's
  try-lock.
\<close>

theorem rwlock_trylock_slips:
  "janus_rwlock_reader_trylock (returning 1) at_main 31 (fresh 1 ())
     = (Value 1, fresh 1 ()\<lparr>flag_reads := 1, sink := [trace_line at_main ''reader_trylock'' 31],
          calls := [(fn_janus_rwlock_reader_trylock, [Ptr 31])], ret_var := 1\<rparr>)
   \<and> janus_rwlock_writer_trylock (returning 1) at_main 31 (fresh 1 ())
     = (Value 1, fresh 1 ()\<lparr>flag_reads := 1, sink := [trace_line at_main ''writer_trylock'' 31],
          calls := [(fn_janus_rwlock_writer_trylock, [Ptr 31])]\<rparr>)
   \<and> janus_rwlock_writer_trylock (returning 1) at_main 31 (fresh 0 ())
     = (Value 1, fresh 0 ()\<lparr>flag_reads := 1, calls := [(g_rw_lock_reader_trylock, [Ptr 31])]\<rparr>)"
  by (simp add: run_defs returning_def fresh_def)

text \<open>
  Claim C9 has \<^verbatim>\<open>janus_rwlock_writer_trylock\<close> fail while two readers hold the
  lock. With the flag unset and two readers holding the lock at address 31, the wrapper
  yields 1: it has taken the lock for reading, as a third reader, where the library's
  writer try-lock would have returned 0.
\<close>

theorem writer_trylock_among_readers:
  "bstate two_readers 31 = \<lparr>readers = 2, writer = False\<rparr>
   \<and> fst (janus_rwlock_writer_trylock grwlock at_main 31 two_readers) = Value 1
   \<and> calls (snd (janus_rwlock_writer_trylock grwlock at_main 31 two_readers))
       = calls two_readers @ [(g_rw_lock_reader_trylock, [Ptr 31])]
   \<and> bstate (snd (janus_rwlock_writer_trylock grwlock at_main 31 two_readers)) 31
       = \<lparr>readers = 3, writer = False\<rparr>
   \<and> grwlock g_rw_lock_writer_trylock [Ptr 31] (bstate two_readers) = Some (0, bstate two_readers)"
  by (simp add: two_readers_def run_defs grwlock_def grwlock_step_def fresh_def no_locks_def)

subsection \<open>Toggling the flag\<close>

text \<open>
  The wrappers without a trace point never read \<^verbatim>\<open>lock_debug\<close>; the others read
  it once.
\<close>

theorem untraced_wrappers_read_no_flag:
  "flag_reads (snd (janus_mutex_init GLIB_DEFAULT (returning 0) 31 (fresh 1 ()))) = 0
   \<and> flag_reads (snd (janus_condition_signal USE_PTHREAD_MUTEX (returning 0) 5 (fresh 1 ()))) = 0
   \<and> flag_reads (snd (janus_mutex_lock GLIB_DEFAULT (returning 0) at_main 31 (fresh 1 ()))) = 1"
  by (simp add: run_defs returning_def fresh_def)

lemma run_append:
  "run sel bk (xs @ ys) w = (case run sel bk xs w of None \<Rightarrow> None | Some w1 \<Rightarrow> run sel bk ys w1)"
proof (induction xs arbitrary: w)
  case Nil
  show ?case by simp
next
  case (Cons s xs)
  show ?case
    by (cases s) (simp_all add: Cons.IH split: option.splits)
qed

lemma run_defined:
  assumes "list_all (defined_step sel) ss"
  shows "\<exists>w'. run sel bk ss w = Some w' \<and> take (length (sink w)) (sink w') = sink w"
  using assms
proof (induction ss arbitrary: w)
  case Nil
  show ?case by simp
next
  case (Cons s ss)
  then have rest: "list_all (defined_step sel) ss" by simp
  show ?case
  proof (cases s)
    case (Use op cs a b c)
    with Cons.prems have "available sel op" by simp
    from facade_sink [OF this, of bk cs a b c w]
    obtain r w1 ls where f: "facade sel bk cs op a b c w = Some (r, w1)"
      and s1: "sink w1 = sink w @ ls"
      by blast
    from Cons.IH [OF rest, of w1] obtain w' where
      r: "run sel bk ss w1 = Some w'" and p: "take (length (sink w1)) (sink w') = sink w1"
      by blast
    from p s1 have "take (length (sink w)) (sink w') = sink w"
      by (metis append_eq_conv_conj append_take_drop_id append.assoc)
    with f r Use show ?thesis by simp
  next
    case (Set_lock_debug v)
    from Cons.IH [OF rest, of "w\<lparr>lock_debug := v\<rparr>"] Set_lock_debug show ?thesis by simp
  qed
qed

text \<open>
  Claim C8, as amended. A use of a wrapper reads \<^verbatim>\<open>lock_debug\<close> at most once:
  once if the wrapper has a trace point, not at all otherwise. It does not write the flag,
  it only appends to the sink, and the lines it appends are the same in any two worlds
  whose flags agree on being 0. A later write of the flag changes no line that an earlier
  use has printed.
\<close>

theorem flag_read_decides_trace:
  assumes "available sel op" and "list_all (defined_step sel) (earlier @ later)"
  shows "(\<exists>r w'. facade sel bk cs op a b c w = Some (r, w')
       \<and> flag_reads w' = flag_reads w + (if has_trace_point op then 1 else 0)
       \<and> lock_debug w' = lock_debug w
       \<and> sink w' = sink w @ emitted w w'
       \<and> (\<forall>(bk2 :: 'c backend) w2. (lock_debug w2 = 0 \<longleftrightarrow> lock_debug w = 0) \<longrightarrow>
            (\<exists>r2 w2'. facade sel bk2 cs op a b c w2 = Some (r2, w2')
               \<and> emitted w2 w2' = emitted w w')))
     \<and> (\<exists>w1 w2. run sel bk earlier w = Some w1
          \<and> run sel bk (earlier @ Set_lock_debug v # later) w = Some w2
          \<and> take (length (sink w1)) (sink w2) = sink w1)"
proof
  let ?ls = "\<lambda>d. if has_trace_point op \<and> d \<noteq> (0::int) then [trace_line cs (printed_tag op) a] else []"
  from facade_sink [OF assms(1), of bk cs a b c w]
  obtain r w' where f: "facade sel bk cs op a b c w = Some (r, w')"
    and fr: "flag_reads w' = flag_reads w + (if has_trace_point op then 1 else 0)"
    and ld: "lock_debug w' = lock_debug w"
    and sk: "sink w' = sink w @ ?ls (lock_debug w)"
    by blast
  from sk have em: "emitted w w' = ?ls (lock_debug w)"
    by (simp add: emitted_def)
  have other: "\<exists>r2 w2'. facade sel bk2 cs op a b c w2 = Some (r2, w2') \<and> emitted w2 w2' = emitted w w'"
    if same: "lock_debug w2 = 0 \<longleftrightarrow> lock_debug w = 0" for bk2 :: "'c backend" and w2
  proof -
    from facade_sink [OF assms(1), of bk2 cs a b c w2]
    obtain r2 w2' where f2: "facade sel bk2 cs op a b c w2 = Some (r2, w2')"
      and sk2: "sink w2' = sink w2 @ ?ls (lock_debug w2)"
      by blast
    from sk2 have "emitted w2 w2' = ?ls (lock_debug w2)"
      by (simp add: emitted_def)
    with em same have "emitted w2 w2' = emitted w w'" by simp
    with f2 show ?thesis by blast
  qed
  from f fr ld sk em other
  show "\<exists>r w'. facade sel bk cs op a b c w = Some (r, w')
       \<and> flag_reads w' = flag_reads w + (if has_trace_point op then 1 else 0)
       \<and> lock_debug w' = lock_debug w
       \<and> sink w' = sink w @ emitted w w'
       \<and> (\<forall>(bk2 :: 'c backend) w2. (lock_debug w2 = 0 \<longleftrightarrow> lock_debug w = 0) \<longrightarrow>
            (\<exists>r2 w2'. facade sel bk2 cs op a b c w2 = Some (r2, w2')
               \<and> emitted w2 w2' = emitted w w'))"
    by auto
next
  from assms(2) have d1: "list_all (defined_step sel) earlier" and d2: "list_all (defined_step sel) later"
    by simp_all
  from run_defined [OF d1, of bk w] obtain w1 where r1: "run sel bk earlier w = Some w1"
    by blast
  from d2 have "list_all (defined_step sel) (Set_lock_debug v # later)" by simp
  from run_defined [OF this, of bk w1] obtain w2 where
    r2: "run sel bk (Set_lock_debug v # later) w1 = Some w2"
    and p: "take (length (sink w1)) (sink w2) = sink w1"
    by blast
  from r1 r2 have "run sel bk (earlier @ Set_lock_debug v # later) w = Some w2"
    by (simp add: run_append)
  with r1 p show "\<exists>w1 w2. run sel bk earlier w = Some w1
          \<and> run sel bk (earlier @ Set_lock_debug v # later) w = Some w2
          \<and> take (length (sink w1)) (sink w2) = sink w1"
    by blast
qed

theorem flag_read_decides_trace_witness:
  "available GLIB_DEFAULT Mutex_lock
   \<and> list_all (defined_step GLIB_DEFAULT) ([Use Mutex_lock at_main 31 0 (var 0)] @ [Use Mutex_unlock at_main 31 0 (var 0)])
   \<and> (\<exists>r w'. facade GLIB_DEFAULT (returning 0) at_main Mutex_lock 31 0 (var 0) (fresh 1 ()) = Some (r, w')
        \<and> flag_reads w' = 1 \<and> sink w' = [trace_line at_main ''lock'' 31])
   \<and> (\<exists>w1 w2. run GLIB_DEFAULT (returning 0) [Use Mutex_lock at_main 31 0 (var 0)] (fresh 1 ()) = Some w1
        \<and> run GLIB_DEFAULT (returning 0)
             ([Use Mutex_lock at_main 31 0 (var 0)] @ Set_lock_debug 0 # [Use Mutex_unlock at_main 31 0 (var 0)])
             (fresh 1 ()) = Some w2
        \<and> sink w1 = [trace_line at_main ''lock'' 31] \<and> sink w2 = [trace_line at_main ''lock'' 31])"
  using flag_read_decides_trace [where sel = GLIB_DEFAULT and op = Mutex_lock
      and earlier = "[Use Mutex_lock at_main 31 0 (var 0)]"
      and later = "[Use Mutex_unlock at_main 31 0 (var 0)]"
      and bk = "returning 0" and cs = at_main and a = 31 and b = 0 and c = "var 0" and w = "fresh 1 ()"
      and v = 0]
  by (simp add: run_defs has_trace_point_def returning_def fresh_def)

end
